theory Spec2Isabelle
  imports Main
begin

section \<open>Influencer-brand marketplace: campaign engine and chat engine\<close>

text \<open>
  A shallow embedding of the campaign routes (create, apply, proof submission), the
  campaign and chat schemas with their instance methods, and the chat routes (send,
  fetch, direct chat, mark read).

  Conventions of the embedding.
  \<^item> An ObjectId is the string that \<^verbatim>\<open>toString()\<close> gives; the routes compare ids by
    that string.
  \<^item> A date is its number of milliseconds since the epoch. Every \<^verbatim>\<open>new Date()\<close> and
    \<^verbatim>\<open>Date.now()\<close> of one request reads the same clock value \<open>now\<close>, a parameter.
  \<^item> A JavaScript Number that holds a rate or a counter is an \<open>int\<close>; floating-point
    rounding is not modelled.
  \<^item> A handler returns \<open>Inl (status, message)\<close> for each \<^verbatim>\<open>res.status(..).json(..)\<close> it
    leaves with, and \<open>Inr\<close> of the saved documents when it answers with success. A
    handler that fails saves nothing.
  \<^item> A database lookup is the option it resolves to. A stored document is one the
    schema accepts: its fields with an \<^verbatim>\<open>enum\<close> are datatypes. What a request brings is
    a string, and the schema validators that \<^verbatim>\<open>save\<close> and \<^verbatim>\<open>create\<close> run on it are
    part of the handler: a rejected document throws into the handler's \<^verbatim>\<open>catch\<close>.
  \<^item> The create, proof and send handlers check \<^verbatim>\<open>validationResult(req)\<close> of the
    validator chain in front of them; their request fields are modelled as sent. The
    apply handler takes the proposed rate as the number the chain let through.
\<close>

type_synonym object_id = string
type_synonym date = int
type_synonym failure = "nat \<times> string"

subsection \<open>Request validation\<close>

text \<open>
  The sanitizer \<^verbatim>\<open>trim()\<close> of the validator chains removes white space at both ends;
  the white space of ASCII is modelled.
\<close>

definition is_space :: "char \<Rightarrow> bool" where
  "is_space c = (c \<in> set [CHR 0x09, CHR 0x0A, CHR 0x0B, CHR 0x0C, CHR 0x0D, CHR '' ''])"

definition trim :: "string \<Rightarrow> string" where
  "trim s = rev (dropWhile is_space (rev (dropWhile is_space s)))"

text \<open>The answer of every handler whose \<^verbatim>\<open>validationResult(req)\<close> is not empty.\<close>

definition validation_failed :: failure where
  "validation_failed = (400, ''Validation failed'')"

subsection \<open>Campaign schema\<close>

datatype campaign_status = Draft | Active | Paused | Completed | Cancelled

datatype application_status = App_pending | App_accepted | App_rejected

datatype selected_status =
  SI_assigned | SI_in_progress | SI_submitted | SI_approved | SI_rejected

datatype influencer_status = Inf_pending_verification | Inf_approved | Inf_rejected

datatype subscription_status = Sub_active | Sub_inactive | Sub_pending

record application =
  app_influencerId :: object_id
  proposedRate :: int
  app_message :: "string option"
  app_status :: application_status
  appliedAt :: date

text \<open>
  The element of \<^verbatim>\<open>proofOfWork\<close> is declared as
  \<^verbatim>\<open>{url: String, platform: String, type: String, submittedAt: {..}}\<close>. An object with a
  key \<^verbatim>\<open>type\<close> is a type declaration to the schema, so this declares the type String
  (the other keys are options it ignores) and \<^verbatim>\<open>proofOfWork\<close> is an array of strings.
\<close>

record selected_influencer =
  si_influencerId :: object_id
  agreedRate :: "int option"
  si_status :: selected_status
  assignedAt :: "date option"
  submittedAt :: "date option"
  approvedAt :: "date option"
  proofOfWork :: "string list"

record timeline =
  applicationDeadline :: date
  campaignStart :: date
  campaignEnd :: date

text \<open>
  A deliverable, with the fields the schema validates; a missing string is the empty
  string, on which \<^verbatim>\<open>required\<close> fails too, and a missing quantity is \<open>None\<close>.
\<close>

record deliverable =
  dl_type :: string
  dl_platform :: string
  dl_quantity :: "int option"

text \<open>
  The requirements with the fields that have a default or a validator; the audience age
  range, locations and niches, the currency of the budget and the description of a
  deliverable are stored as sent and are left out.
\<close>

record requirements =
  minFollowers :: int
  minEngagementRate :: int
  gender :: "string option"

text \<open>The campaign document.\<close>

record campaign =
  campaign_id :: object_id
  brandId :: object_id
  title :: string
  description :: string
  category :: string
  budget_min :: int
  budget_max :: int
  deliverables :: "deliverable list"
  campaign_requirements :: requirements
  campaign_timeline :: timeline
  campaign_status :: campaign_status
  applications :: "application list"
  selectedInfluencers :: "selected_influencer list"
  totalBudgetAllocated :: int
  campaign_createdAt :: date
  campaign_updatedAt :: date

record brand =
  brand_id :: object_id
  subscription_status :: subscription_status
  campaignsCreated :: int
  brand_updatedAt :: date

record influencer =
  influencer_id :: object_id
  influencer_status :: influencer_status

text \<open>The pre-save hook of the campaign schema: \<^verbatim>\<open>this.updatedAt = Date.now()\<close>.\<close>

definition campaign_pre_save :: "date \<Rightarrow> campaign \<Rightarrow> campaign" where
  "campaign_pre_save now c = c\<lparr>campaign_updatedAt := now\<rparr>"

text \<open>\<^verbatim>\<open>influencer.agreedRate || 0\<close>: a missing rate (and the rate 0) gives 0.\<close>

definition rate_or_zero :: "int option \<Rightarrow> int" where
  "rate_or_zero r = (case r of None \<Rightarrow> 0 | Some v \<Rightarrow> if v = 0 then 0 else v)"

text \<open>
  \<^verbatim>\<open>calculateTotalBudget\<close>: a \<^verbatim>\<open>reduce\<close> from the left over the selected
  influencers, starting at 0, stored into \<^verbatim>\<open>totalBudgetAllocated\<close>.
\<close>

definition calculateTotalBudget :: "campaign \<Rightarrow> campaign" where
  "calculateTotalBudget c =
     c\<lparr>totalBudgetAllocated :=
         foldl (\<lambda>total si. total + rate_or_zero (agreedRate si)) 0 (selectedInfluencers c)\<rparr>"

text \<open>The sum of the agreed rates as the specification words it, a missing rate counted as 0.\<close>

definition agreed_rate_sum :: "campaign \<Rightarrow> int" where
  "agreed_rate_sum c =
     (\<Sum>si\<leftarrow>selectedInfluencers c. (case agreedRate si of None \<Rightarrow> 0 | Some v \<Rightarrow> v))"

subsection \<open>Campaign creation\<close>

text \<open>
  A timeline field of the request body: a value the validator \<^verbatim>\<open>isISO8601()\<close> rejects
  (or no value), or one it accepts together with what \<^verbatim>\<open>new Date\<close> makes of it, \<open>None\<close>
  for an Invalid Date.
\<close>

datatype date_field = Not_ISO8601 | ISO8601 "date option"

record requirements_body =
  rb_minFollowers :: "int option"
  rb_minEngagementRate :: "int option"
  rb_gender :: "string option"

text \<open>
  The request body of the create route. A missing string is the empty string; a budget
  bound is \<open>None\<close> when \<^verbatim>\<open>isNumeric()\<close> rejects it, the deliverables are \<open>None\<close> when they
  are not an array, the requirements are \<open>None\<close> when absent.
\<close>

record campaign_spec =
  spec_title :: string
  spec_description :: string
  spec_category :: string
  spec_budget_min :: "int option"
  spec_budget_max :: "int option"
  spec_deliverables :: "deliverable list option"
  spec_requirements :: "requirements_body option"
  spec_applicationDeadline :: date_field
  spec_campaignStart :: date_field
  spec_campaignEnd :: date_field

text \<open>
  The validator chain of the route: \<^verbatim>\<open>notEmpty()\<close> on title, description and category
  (before the trim), \<^verbatim>\<open>isNumeric()\<close> on the budget bounds, \<^verbatim>\<open>isArray({min: 1})\<close> on the
  deliverables, \<^verbatim>\<open>isISO8601()\<close> on the three timeline fields.
\<close>

definition create_validation_ok :: "campaign_spec \<Rightarrow> bool" where
  "create_validation_ok spec =
     (spec_title spec \<noteq> [] \<and> spec_description spec \<noteq> [] \<and> spec_category spec \<noteq> []
      \<and> spec_budget_min spec \<noteq> None \<and> spec_budget_max spec \<noteq> None
      \<and> (case spec_deliverables spec of None \<Rightarrow> False | Some ds \<Rightarrow> 1 \<le> length ds)
      \<and> spec_applicationDeadline spec \<noteq> Not_ISO8601
      \<and> spec_campaignStart spec \<noteq> Not_ISO8601
      \<and> spec_campaignEnd spec \<noteq> Not_ISO8601)"

text \<open>\<^verbatim>\<open>new Date(field)\<close>: the time value, \<open>None\<close> for an Invalid Date.\<close>

definition new_Date :: "date_field \<Rightarrow> date option" where
  "new_Date f = (case f of Not_ISO8601 \<Rightarrow> None | ISO8601 d \<Rightarrow> d)"

text \<open>
  \<^verbatim>\<open>a <= b\<close> on two Date objects compares their time values; the time value of an Invalid
  Date is NaN, and a comparison with NaN is false.
\<close>

definition date_le :: "date option \<Rightarrow> date option \<Rightarrow> bool" where
  "date_le a b = (case a of None \<Rightarrow> False | Some x \<Rightarrow> (case b of None \<Rightarrow> False | Some y \<Rightarrow> x \<le> y))"

text \<open>The \<^verbatim>\<open>enum\<close> lists of the campaign schema.\<close>

definition category_enum :: "string list" where
  "category_enum = [''fashion'', ''beauty'', ''fitness'', ''food'', ''travel'', ''tech'',
                    ''lifestyle'', ''gaming'', ''education'', ''business'']"

definition deliverable_type_enum :: "string list" where
  "deliverable_type_enum = [''post'', ''story'', ''reel'', ''video'', ''blog'']"

definition platform_enum :: "string list" where
  "platform_enum = [''instagram'', ''youtube'', ''tiktok'', ''twitter'', ''blog'']"

definition gender_enum :: "string list" where
  "gender_enum = [''male'', ''female'', ''all'']"

definition deliverable_ok :: "deliverable \<Rightarrow> bool" where
  "deliverable_ok d =
     (dl_type d \<in> set deliverable_type_enum \<and> dl_platform d \<in> set platform_enum
      \<and> (case dl_quantity d of None \<Rightarrow> False | Some q \<Rightarrow> 1 \<le> q))"

definition gender_ok :: "requirements_body option \<Rightarrow> bool" where
  "gender_ok r =
     (case r of
        None \<Rightarrow> True
      | Some rb \<Rightarrow> (case rb_gender rb of None \<Rightarrow> True | Some g \<Rightarrow> g \<in> set gender_enum))"

text \<open>\<^verbatim>\<open>requirements || {}\<close> under the defaults of the schema.\<close>

definition requirements_of :: "requirements_body option \<Rightarrow> requirements" where
  "requirements_of r =
     (case r of
        None \<Rightarrow> \<lparr>minFollowers = 1000, minEngagementRate = 2, gender = None\<rparr>
      | Some rb \<Rightarrow>
          \<lparr>minFollowers = (case rb_minFollowers rb of None \<Rightarrow> 1000 | Some n \<Rightarrow> n),
           minEngagementRate = (case rb_minEngagementRate rb of None \<Rightarrow> 2 | Some n \<Rightarrow> n),
           gender = rb_gender rb\<rparr>)"

text \<open>
  \<^verbatim>\<open>Campaign.create\<close> with the fields the handler passes and the status active: the
  document when the schema accepts it, \<open>None\<close> when a \<^verbatim>\<open>required\<close>, \<^verbatim>\<open>enum\<close> or \<^verbatim>\<open>min\<close>
  validator or the cast of a timeline field to a Date fails, which throws. The title and
  the description arrive trimmed. The schema defaults fill the two lists, the allocated
  budget and the timestamps.
\<close>

definition campaign_create ::
  "object_id \<Rightarrow> campaign_spec \<Rightarrow> object_id \<Rightarrow> date \<Rightarrow> campaign option" where
  "campaign_create brand spec new_id now =
     (case spec_budget_min spec of None \<Rightarrow> None | Some bmin \<Rightarrow>
      case spec_budget_max spec of None \<Rightarrow> None | Some bmax \<Rightarrow>
      case spec_deliverables spec of None \<Rightarrow> None | Some ds \<Rightarrow>
      case new_Date (spec_applicationDeadline spec) of None \<Rightarrow> None | Some deadline \<Rightarrow>
      case new_Date (spec_campaignStart spec) of None \<Rightarrow> None | Some start \<Rightarrow>
      case new_Date (spec_campaignEnd spec) of None \<Rightarrow> None | Some fin \<Rightarrow>
        if trim (spec_title spec) \<noteq> [] \<and> trim (spec_description spec) \<noteq> []
           \<and> spec_category spec \<in> set category_enum
           \<and> list_all deliverable_ok ds
           \<and> gender_ok (spec_requirements spec)
        then Some
          \<lparr>campaign_id = new_id,
           brandId = brand,
           title = trim (spec_title spec),
           description = trim (spec_description spec),
           category = spec_category spec,
           budget_min = bmin,
           budget_max = bmax,
           deliverables = ds,
           campaign_requirements = requirements_of (spec_requirements spec),
           campaign_timeline = \<lparr>applicationDeadline = deadline, campaignStart = start,
                                  campaignEnd = fin\<rparr>,
           campaign_status = Active,
           applications = [],
           selectedInfluencers = [],
           totalBudgetAllocated = 0,
           campaign_createdAt = now,
           campaign_updatedAt = now\<rparr>
        else None)"

text \<open>
  \<^verbatim>\<open>POST /api/campaigns/create\<close>. \<open>b\<close> is what \<^verbatim>\<open>Brand.findOne\<close> resolves to and
  \<open>new_id\<close> the id the store gives the new document. A \<^verbatim>\<open>Campaign.create\<close> that throws
  is answered by the \<^verbatim>\<open>catch\<close> before the brand is touched; saving the brand runs its
  pre-save hook.
\<close>

definition create :: "brand option \<Rightarrow> campaign_spec \<Rightarrow> object_id \<Rightarrow> date \<Rightarrow> failure + campaign \<times> brand" where
  "create b spec new_id now =
     (if \<not> create_validation_ok spec then Inl validation_failed
      else case b of
        None \<Rightarrow> Inl (404, ''Brand profile not found'')
      | Some brand \<Rightarrow>
          if subscription_status brand \<noteq> Sub_active
          then Inl (403, ''Active subscription required to create campaigns'')
          else if date_le (new_Date (spec_applicationDeadline spec)) (Some now)
          then Inl (400, ''Application deadline must be in the future'')
          else if date_le (new_Date (spec_campaignStart spec))
                    (new_Date (spec_applicationDeadline spec))
          then Inl (400, ''Campaign start must be after application deadline'')
          else if date_le (new_Date (spec_campaignEnd spec)) (new_Date (spec_campaignStart spec))
          then Inl (400, ''Campaign end must be after campaign start'')
          else (case campaign_create (brand_id brand) spec new_id now of
              None \<Rightarrow> Inl (500, ''Server error during campaign creation'')
            | Some campaign \<Rightarrow>
                Inr (campaign,
                     brand\<lparr>campaignsCreated := campaignsCreated brand + 1,
                           brand_updatedAt := now\<rparr>)))"

subsection \<open>Applying to a campaign\<close>

text \<open>
  \<^verbatim>\<open>POST /api/campaigns/:id/apply\<close>. \<open>i\<close> and \<open>c\<close> are what
  \<^verbatim>\<open>Influencer.findOne\<close> and \<^verbatim>\<open>Campaign.findById\<close> resolve to. The pushed
  application gets \<^verbatim>\<open>appliedAt\<close> from the schema default.
\<close>

definition apply_campaign ::
  "influencer option \<Rightarrow> campaign option \<Rightarrow> int \<Rightarrow> string option \<Rightarrow> date \<Rightarrow> failure + campaign" where
  "apply_campaign i c rate msg now =
     (case i of
        None \<Rightarrow> Inl (404, ''Influencer profile not found'')
      | Some infl \<Rightarrow>
          if influencer_status infl \<noteq> Inf_approved
          then Inl (403, ''Influencer profile must be approved to apply'')
          else (case c of
             None \<Rightarrow> Inl (404, ''Campaign not found'')
           | Some camp \<Rightarrow>
               if campaign_status camp \<noteq> Active
               then Inl (400, ''Campaign is not active'')
               else if now > applicationDeadline (campaign_timeline camp)
               then Inl (400, ''Application deadline has passed'')
               else (case find (\<lambda>app. app_influencerId app = influencer_id infl) (applications camp) of
                  Some existing \<Rightarrow> Inl (400, ''Already applied to this campaign'')
                | None \<Rightarrow>
                    Inr (campaign_pre_save now
                      (camp\<lparr>applications := applications camp @
                          [\<lparr>app_influencerId = influencer_id infl,
                            proposedRate = rate,
                            app_message = msg,
                            app_status = App_pending,
                            appliedAt = now\<rparr>]\<rparr>)))))"

text \<open>
  The campaign document in the store after an apply request: the saved document when the
  handler answered with success, the document as it was when it left early.
\<close>

definition campaign_after_apply ::
  "influencer option \<Rightarrow> campaign \<Rightarrow> int \<Rightarrow> string option \<Rightarrow> date \<Rightarrow> campaign" where
  "campaign_after_apply i c rate msg now =
     (case apply_campaign i (Some c) rate msg now of Inl e \<Rightarrow> c | Inr c' \<Rightarrow> c')"

subsection \<open>Submitting proof of work\<close>

text \<open>A file as the upload middleware leaves it in \<^verbatim>\<open>req.files\<close> or \<^verbatim>\<open>req.file\<close>.\<close>

record upload_file =
  file_path :: string
  originalname :: string
  mimetype :: string

text \<open>
  What \<^verbatim>\<open>JSON.parse(req.body.proofData)\<close> gives. The handler reads \<^verbatim>\<open>platform\<close>,
  \<^verbatim>\<open>type\<close> and \<^verbatim>\<open>urls\<close> of the value and \<^verbatim>\<open>url\<close>, \<^verbatim>\<open>platform\<close>, \<^verbatim>\<open>type\<close> of each
  element of \<^verbatim>\<open>urls\<close>; a property that is absent is \<open>None\<close>, and \<^verbatim>\<open>urls\<close> is \<open>None\<close>
  when it is absent or not an array. Reading a property of \<^verbatim>\<open>null\<close> throws, so
  \<^verbatim>\<open>null\<close> is a constructor of its own at both levels.
\<close>

datatype json_url =
  UrlNull
  | UrlData (ud_url: "string option") (ud_platform: "string option") (ud_type: "string option")

datatype json_payload =
  PayloadNull
  | Payload (pd_platform: "string option") (pd_type: "string option") (pd_urls: "json_url list option")

text \<open>\<^verbatim>\<open>s || d\<close> on an optional string: absent and the empty string are falsy.\<close>

definition or_default :: "string option \<Rightarrow> string \<Rightarrow> string" where
  "or_default s d = (case s of None \<Rightarrow> d | Some v \<Rightarrow> if v = [] then d else v)"

text \<open>
  What \<^verbatim>\<open>req.body.proofData\<close> holds: nothing or the empty string, which
  \<^verbatim>\<open>body('proofData').notEmpty()\<close> rejects; a string on which \<^verbatim>\<open>JSON.parse\<close> throws;
  or a string that parses to a value.
\<close>

datatype proof_body = PD_empty | PD_malformed | PD_json json_payload

text \<open>An element of the local array \<^verbatim>\<open>proofOfWork\<close> that the handler builds.\<close>

record proof_object =
  po_url :: "string option"
  po_platform :: "string option"
  po_type :: "string option"

definition file_proofs :: "json_payload \<Rightarrow> upload_file list \<Rightarrow> proof_object list" where
  "file_proofs pd files =
     map (\<lambda>file. \<lparr>po_url = Some (file_path file),
                   po_platform = Some (or_default (pd_platform pd) ''unknown''),
                   po_type = Some (or_default (pd_type pd) ''file'')\<rparr>) files"

definition url_proofs :: "json_url list \<Rightarrow> proof_object list" where
  "url_proofs us =
     map (\<lambda>urlData. \<lparr>po_url = ud_url urlData,
                      po_platform = ud_platform urlData,
                      po_type = Some (or_default (ud_type urlData) ''link'')\<rparr>) us"

text \<open>
  \<^verbatim>\<open>selectedInfluencer.proofOfWork.push(...proofOfWork)\<close>. The array holds strings, and
  it casts what is pushed: the String cast of a plain object throws a CastError. So the
  push returns the array as it was when nothing is pushed, and throws, \<open>None\<close>, when
  there is an object to push.
\<close>

definition push_proofs :: "string list \<Rightarrow> proof_object list \<Rightarrow> string list option" where
  "push_proofs stored objs = (if objs = [] then Some stored else None)"

text \<open>
  The elements the second loop runs over: those of \<^verbatim>\<open>proofData.urls\<close> when it is an
  array, none otherwise.
\<close>

definition payload_urls :: "json_url list option \<Rightarrow> json_url list" where
  "payload_urls urls = (case urls of None \<Rightarrow> [] | Some us \<Rightarrow> us)"

text \<open>
  \<^verbatim>\<open>find\<close> returns the first matching sub-document itself, so the assignments to it
  change that element of the array.
\<close>

fun update_first :: "('a \<Rightarrow> bool) \<Rightarrow> ('a \<Rightarrow> 'a) \<Rightarrow> 'a list \<Rightarrow> 'a list" where
  "update_first P f [] = []"
| "update_first P f (x # xs) = (if P x then f x # xs else x # update_first P f xs)"

text \<open>
  \<^verbatim>\<open>POST /api/campaigns/:id/proof\<close>. A \<^verbatim>\<open>null\<close> payload or \<^verbatim>\<open>null\<close> url entry makes a
  property read throw, and a proof object makes the push throw; the outer \<^verbatim>\<open>catch\<close>
  answers both with 500, and nothing was saved.
\<close>

definition submitProof ::
  "influencer option \<Rightarrow> campaign option \<Rightarrow> proof_body \<Rightarrow> upload_file list \<Rightarrow> date
   \<Rightarrow> failure + campaign" where
  "submitProof i c pd files now =
     (if pd = PD_empty then Inl validation_failed
      else case i of
        None \<Rightarrow> Inl (404, ''Influencer profile not found'')
      | Some infl \<Rightarrow>
         (case c of
            None \<Rightarrow> Inl (404, ''Campaign not found'')
          | Some camp \<Rightarrow>
             (case find (\<lambda>si. si_influencerId si = influencer_id infl) (selectedInfluencers camp) of
                None \<Rightarrow> Inl (403, ''Not authorized for this campaign'')
              | Some selectedInfluencer \<Rightarrow>
                  if si_status selectedInfluencer \<noteq> SI_in_progress
                  then Inl (400, ''Campaign is not in progress'')
                  else (case pd of
                     PD_empty \<Rightarrow> Inl validation_failed
                   | PD_malformed \<Rightarrow> Inl (400, ''Invalid proof data format'')
                   | PD_json PayloadNull \<Rightarrow> Inl (500, ''Server error'')
                   | PD_json (Payload platform type urls) \<Rightarrow>
                       if UrlNull \<in> set (payload_urls urls)
                       then Inl (500, ''Server error'')
                       else
                         (case push_proofs (proofOfWork selectedInfluencer)
                                 (file_proofs (Payload platform type urls) files
                                  @ url_proofs (payload_urls urls)) of
                            None \<Rightarrow> Inl (500, ''Server error'')
                          | Some pushed \<Rightarrow>
                              Inr (campaign_pre_save now
                                (camp\<lparr>selectedInfluencers :=
                                    update_first (\<lambda>si. si_influencerId si = influencer_id infl)
                                      (\<lambda>si. si\<lparr>proofOfWork := pushed,
                                                si_status := SI_submitted,
                                                submittedAt := Some now\<rparr>)
                                      (selectedInfluencers camp)\<rparr>)))))))"

subsection \<open>Chat schema\<close>

datatype chat_type = Direct | Campaign_chat

record read_entry =
  re_userId :: object_id
  readAt :: date

text \<open>
  A message sub-document of a chat: \<^verbatim>\<open>createdAt\<close> has a schema default, and
  \<^verbatim>\<open>messageType\<close> is a String that the \<^verbatim>\<open>enum\<close> validator checks when the chat is saved.
\<close>

record message =
  senderId :: object_id
  content :: string
  messageType :: string
  fileUrl :: "string option"
  fileName :: "string option"
  readBy :: "read_entry list"
  createdAt :: date

text \<open>
  A plain JavaScript object with the properties of a message, before the document array
  casts it: any property may still be absent, and \<^verbatim>\<open>createdAt\<close> is the one the send
  handler leaves out.
\<close>

record message_object =
  mo_senderId :: object_id
  mo_content :: string
  mo_messageType :: string
  mo_fileUrl :: "string option"
  mo_fileName :: "string option"
  mo_readBy :: "read_entry list"
  mo_createdAt :: "date option"

record last_message =
  lm_content :: "string option"
  lm_senderId :: "object_id option"
  lm_createdAt :: "date option"

record chat =
  chat_id :: object_id
  participants :: "object_id list"
  chat_campaignId :: "object_id option"
  chatType :: chat_type
  messages :: "message list"
  lastMessage :: last_message
  isActive :: bool
  chat_createdAt :: date
  chat_updatedAt :: date

text \<open>
  \<^verbatim>\<open>chat.messages.push(message)\<close> casts a copy of the object to a sub-document and
  fills the schema default of \<^verbatim>\<open>createdAt\<close>; the object passed in is not changed.
\<close>

definition cast_message :: "date \<Rightarrow> message_object \<Rightarrow> message" where
  "cast_message now m =
     \<lparr>senderId = mo_senderId m,
      content = mo_content m,
      messageType = mo_messageType m,
      fileUrl = mo_fileUrl m,
      fileName = mo_fileName m,
      readBy = mo_readBy m,
      createdAt = (case mo_createdAt m of None \<Rightarrow> now | Some t \<Rightarrow> t)\<rparr>"

text \<open>\<^verbatim>\<open>chatSchema.methods.updateLastMessage\<close>, reading the three properties of its argument.\<close>

definition updateLastMessage :: "date \<Rightarrow> message_object \<Rightarrow> chat \<Rightarrow> chat" where
  "updateLastMessage now m ch =
     ch\<lparr>lastMessage := \<lparr>lm_content = Some (mo_content m),
                         lm_senderId = Some (mo_senderId m),
                         lm_createdAt = mo_createdAt m\<rparr>,
        chat_updatedAt := now\<rparr>"

definition chat_pre_save :: "date \<Rightarrow> chat \<Rightarrow> chat" where
  "chat_pre_save now ch = ch\<lparr>chat_updatedAt := now\<rparr>"

subsection \<open>Sending a message\<close>

text \<open>\<^verbatim>\<open>s.startsWith(p)\<close>.\<close>

definition startsWith :: "string \<Rightarrow> string \<Rightarrow> bool" where
  "startsWith s p = (take (length p) s = p)"

text \<open>
  The validators of the message schema that saving the chat runs on the pushed message:
  \<^verbatim>\<open>content\<close> is required, which the empty string fails, and \<^verbatim>\<open>messageType\<close> has an
  \<^verbatim>\<open>enum\<close>.
\<close>

definition message_type_enum :: "string list" where
  "message_type_enum = [''text'', ''image'', ''file'']"

definition message_schema_ok :: "message \<Rightarrow> bool" where
  "message_schema_ok m = (content m \<noteq> [] \<and> messageType m \<in> set message_type_enum)"

text \<open>
  \<^verbatim>\<open>POST /api/chat/:id/send\<close>. \<open>cont\<close> is the \<^verbatim>\<open>content\<close> of the body as sent (empty when
  absent), which \<^verbatim>\<open>notEmpty()\<close> checks and \<^verbatim>\<open>trim()\<close> then trims; \<open>mt\<close> is its
  \<^verbatim>\<open>messageType\<close> (\<open>None\<close> when absent, which the destructuring defaults to text), \<open>ch\<close> is
  what \<^verbatim>\<open>Chat.findById\<close> resolves to, \<open>user\<close> is \<^verbatim>\<open>req.user.id\<close> and \<open>upl\<close> is
  \<^verbatim>\<open>req.file\<close>. A save that the schema rejects throws into the \<^verbatim>\<open>catch\<close>. The answer
  carries the saved chat and its last message.
\<close>

definition sendMessage ::
  "chat option \<Rightarrow> object_id \<Rightarrow> string \<Rightarrow> string option \<Rightarrow> upload_file option \<Rightarrow> date
   \<Rightarrow> failure + chat \<times> message" where
  "sendMessage ch user cont mt upl now =
     (if cont = [] then Inl validation_failed
      else case ch of
        None \<Rightarrow> Inl (404, ''Chat not found'')
      | Some chat \<Rightarrow>
          if user \<notin> set (participants chat)
          then Inl (403, ''Not authorized to send messages in this chat'')
          else
            let messageType = (case mt of None \<Rightarrow> ''text'' | Some t \<Rightarrow> t);
                fileUrl = (case upl of None \<Rightarrow> None | Some f \<Rightarrow> Some (file_path f));
                fileName = (case upl of None \<Rightarrow> None | Some f \<Rightarrow> Some (originalname f));
                actualMessageType =
                  (case upl of
                     None \<Rightarrow> messageType
                   | Some f \<Rightarrow> if startsWith (mimetype f) ''image/'' then ''image'' else ''file'');
                message = \<lparr>mo_senderId = user,
                           mo_content = trim cont,
                           mo_messageType = actualMessageType,
                           mo_fileUrl = fileUrl,
                           mo_fileName = fileName,
                           mo_readBy = [\<lparr>re_userId = user, readAt = now\<rparr>],
                           mo_createdAt = None\<rparr>;
                pushed = chat\<lparr>messages := messages chat @ [cast_message now message]\<rparr>;
                saved = chat_pre_save now (updateLastMessage now message pushed)
            in if \<not> message_schema_ok (cast_message now message)
               then Inl (500, ''Server error'')
               else Inr (saved, last (messages saved)))"

subsection \<open>Read tracking\<close>

text \<open>\<^verbatim>\<open>msg.readBy.some(read => read.userId.toString() === req.user.id)\<close>.\<close>

definition read_by :: "object_id \<Rightarrow> message \<Rightarrow> bool" where
  "read_by user msg = list_ex (\<lambda>read. re_userId read = user) (readBy msg)"

text \<open>The body of both marking loops: push an entry unless the user has one.\<close>

definition mark_read :: "object_id \<Rightarrow> date \<Rightarrow> message \<Rightarrow> message" where
  "mark_read user now msg =
     (if \<not> read_by user msg
      then msg\<lparr>readBy := readBy msg @ [\<lparr>re_userId = user, readAt = now\<rparr>]\<rparr>
      else msg)"

text \<open>The number of entries a user has in the \<^verbatim>\<open>readBy\<close> list of a message.\<close>

definition read_entries :: "object_id \<Rightarrow> message \<Rightarrow> nat" where
  "read_entries user msg = length (filter (\<lambda>read. re_userId read = user) (readBy msg))"

text \<open>The unread count of \<^verbatim>\<open>GET /api/chat/my\<close> for one chat.\<close>

definition unreadCount :: "chat \<Rightarrow> object_id \<Rightarrow> nat" where
  "unreadCount ch user =
     length (filter (\<lambda>msg. senderId msg \<noteq> user \<and> \<not> read_by user msg) (messages ch))"

text \<open>
  \<^verbatim>\<open>PUT /api/chat/:id/read\<close>. The chat is saved only when the loop pushed an entry.
\<close>

definition markAllRead :: "chat option \<Rightarrow> object_id \<Rightarrow> date \<Rightarrow> failure + chat" where
  "markAllRead ch user now =
     (case ch of
        None \<Rightarrow> Inl (404, ''Chat not found'')
      | Some chat \<Rightarrow>
          if user \<notin> set (participants chat)
          then Inl (403, ''Not authorized'')
          else
            let updated = list_ex (\<lambda>msg. \<not> read_by user msg) (messages chat);
                marked = chat\<lparr>messages := map (mark_read user now) (messages chat)\<rparr>
            in Inr (if updated then chat_pre_save now marked else marked))"

subsection \<open>Fetching a page of messages\<close>

text \<open>
  \<^verbatim>\<open>Array.prototype.slice(start, fin)\<close> on integers: a negative index counts from the
  end of the array, and both are clamped to the array.
\<close>

definition js_slice :: "'a list \<Rightarrow> int \<Rightarrow> int \<Rightarrow> 'a list" where
  "js_slice xs start fin =
     (let len = int (length xs);
          k = (if start < 0 then max (len + start) 0 else min start len);
          final = (if fin < 0 then max (len + fin) 0 else min fin len)
      in take (nat (final - k)) (drop (nat k) xs))"

record fetch_response =
  fr_chat :: chat
  fr_messages :: "message list"
  fr_total :: nat
  fr_hasMore :: bool

text \<open>
  \<^verbatim>\<open>GET /api/chat/:id\<close> with the query numbers \<open>page\<close> and \<open>limit\<close>. The slice is a new
  array of the same sub-documents, reversed in place; the entries pushed afterwards are
  pushed to those sub-documents, so the answer shows them. The marking loop runs over
  the messages the user has not read and tests each again; the chat is saved when there
  was one.
\<close>

definition fetchPage ::
  "chat option \<Rightarrow> object_id \<Rightarrow> int \<Rightarrow> int \<Rightarrow> date \<Rightarrow> failure + fetch_response" where
  "fetchPage ch user page limit now =
     (case ch of
        None \<Rightarrow> Inl (404, ''Chat not found'')
      | Some chat \<Rightarrow>
          if \<not> list_ex (\<lambda>p. p = user) (participants chat)
          then Inl (403, ''Not authorized to view this chat'')
          else
            let startIndex = max 0 (int (length (messages chat)) - page * limit);
                endIndex = int (length (messages chat)) - (page - 1) * limit;
                unreadMessages = filter (\<lambda>msg. \<not> read_by user msg) (messages chat);
                marked = chat\<lparr>messages := map (mark_read user now) (messages chat)\<rparr>;
                saved = (if length unreadMessages > 0 then chat_pre_save now marked else chat);
                paginatedMessages = rev (js_slice (messages saved) startIndex endIndex)
            in Inr \<lparr>fr_chat = saved,
                     fr_messages = paginatedMessages,
                     fr_total = length (messages chat),
                     fr_hasMore = (startIndex > 0)\<rparr>)"

subsection \<open>Direct chats\<close>

text \<open>The two collections the direct-chat route reads: the user ids and the chats.\<close>

record store =
  users :: "object_id list"
  chats :: "chat list"

text \<open>
  The query \<^verbatim>\<open>{chatType: 'direct', participants: {$all: [a, b]}}\<close>: a direct chat whose
  participants array holds both ids.
\<close>

definition direct_match :: "object_id \<Rightarrow> object_id \<Rightarrow> chat \<Rightarrow> bool" where
  "direct_match a b ch =
     (chatType ch = Direct \<and> a \<in> set (participants ch) \<and> b \<in> set (participants ch))"

text \<open>
  \<^verbatim>\<open>POST /api/chat/direct\<close>. \<open>user\<close> is \<^verbatim>\<open>req.user.id\<close>; \<^verbatim>\<open>findOne\<close> gives the first
  chat of the collection that matches; \<open>new_id\<close> is the id the store gives a created
  chat, whose other fields are the schema defaults. The answer carries the store, the
  message of the response and the chat.
\<close>

definition getOrCreateDirect ::
  "store \<Rightarrow> object_id \<Rightarrow> object_id \<Rightarrow> object_id \<Rightarrow> date \<Rightarrow> failure + store \<times> string \<times> chat" where
  "getOrCreateDirect st user participantId new_id now =
     (if participantId \<notin> set (users st)
      then Inl (404, ''Participant not found'')
      else
        let found = find (direct_match user participantId) (chats st);
            chat = (case found of
                      Some ch \<Rightarrow> ch
                    | None \<Rightarrow> \<lparr>chat_id = new_id,
                               participants = [user, participantId],
                               chat_campaignId = None,
                               chatType = Direct,
                               messages = [],
                               lastMessage = \<lparr>lm_content = None, lm_senderId = None,
                                              lm_createdAt = None\<rparr>,
                               isActive = True,
                               chat_createdAt = now,
                               chat_updatedAt = now\<rparr>);
            st' = (case found of
                     Some ch \<Rightarrow> st
                   | None \<Rightarrow> st\<lparr>chats := chats st @ [chat]\<rparr>)
        in Inr (st',
                if length (messages chat) = 0 then ''Chat created successfully'' else ''Chat found'',
                chat))"

text \<open>The direct chats of the store that hold both users.\<close>

definition direct_chats_of :: "store \<Rightarrow> object_id \<Rightarrow> object_id \<Rightarrow> chat list" where
  "direct_chats_of st a b = filter (direct_match a b) (chats st)"

section \<open>Example documents\<close>

definition ex_influencer :: influencer where
  "ex_influencer = \<lparr>influencer_id = ''i1'', influencer_status = Inf_approved\<rparr>"

definition ex_selected :: selected_influencer where
  "ex_selected =
     \<lparr>si_influencerId = ''i1'', agreedRate = Some 100, si_status = SI_in_progress,
      assignedAt = Some 10, submittedAt = None, approvedAt = None, proofOfWork = []\<rparr>"

definition ex_campaign :: campaign where
  "ex_campaign =
     \<lparr>campaign_id = ''c1'', brandId = ''b1'', title = ''Launch'', description = ''Spring'',
      category = ''fashion'', budget_min = 100, budget_max = 500,
      deliverables = [\<lparr>dl_type = ''post'', dl_platform = ''instagram'', dl_quantity = Some 2\<rparr>],
      campaign_requirements = \<lparr>minFollowers = 1000, minEngagementRate = 2, gender = None\<rparr>,
      campaign_timeline = \<lparr>applicationDeadline = 100, campaignStart = 200, campaignEnd = 300\<rparr>,
      campaign_status = Active, applications = [], selectedInfluencers = [ex_selected],
      totalBudgetAllocated = 0, campaign_createdAt = 1, campaign_updatedAt = 1\<rparr>"

definition ex_payload :: json_payload where
  "ex_payload = Payload (Some ''instagram'') (Some ''post'')
                  (Some [UrlData (Some ''https://x/p/1'') (Some ''instagram'') None])"

text \<open>The payload \<^verbatim>\<open>{}\<close>: no platform, no type, no urls.\<close>

definition ex_empty_payload :: json_payload where
  "ex_empty_payload = Payload None None None"

definition ex_file :: upload_file where
  "ex_file = \<lparr>file_path = ''uploads/misc/shot.jpg'', originalname = ''shot.jpg'',
               mimetype = ''image/jpeg''\<rparr>"

definition ex_brand :: brand where
  "ex_brand = \<lparr>brand_id = ''b1'', subscription_status = Sub_active, campaignsCreated = 0,
                brand_updatedAt = 1\<rparr>"

definition ex_spec :: campaign_spec where
  "ex_spec = \<lparr>spec_title = ''Launch'', spec_description = ''Spring'', spec_category = ''fashion'',
               spec_budget_min = Some 100, spec_budget_max = Some 500,
               spec_deliverables =
                 Some [\<lparr>dl_type = ''post'', dl_platform = ''instagram'', dl_quantity = Some 2\<rparr>],
               spec_requirements = None,
               spec_applicationDeadline = ISO8601 (Some 100),
               spec_campaignStart = ISO8601 (Some 200),
               spec_campaignEnd = ISO8601 (Some 300)\<rparr>"

definition ex_msg1 :: message where
  "ex_msg1 = \<lparr>senderId = ''u1'', content = ''first'', messageType = ''text'', fileUrl = None,
               fileName = None, readBy = [\<lparr>re_userId = ''u1'', readAt = 10\<rparr>], createdAt = 10\<rparr>"

definition ex_msg2 :: message where
  "ex_msg2 = \<lparr>senderId = ''u1'', content = ''second'', messageType = ''text'', fileUrl = None,
               fileName = None, readBy = [\<lparr>re_userId = ''u1'', readAt = 20\<rparr>], createdAt = 20\<rparr>"

definition ex_msg3 :: message where
  "ex_msg3 = \<lparr>senderId = ''u2'', content = ''third'', messageType = ''text'', fileUrl = None,
               fileName = None, readBy = [\<lparr>re_userId = ''u2'', readAt = 30\<rparr>], createdAt = 30\<rparr>"

definition ex_chat :: chat where
  "ex_chat = \<lparr>chat_id = ''ch1'', participants = [''u1'', ''u2''], chat_campaignId = None,
               chatType = Direct, messages = [ex_msg1, ex_msg2],
               lastMessage = \<lparr>lm_content = Some ''second'', lm_senderId = Some ''u1'',
                              lm_createdAt = None\<rparr>,
               isActive = True, chat_createdAt = 5, chat_updatedAt = 20\<rparr>"

definition ex_chat3 :: chat where
  "ex_chat3 = ex_chat\<lparr>messages := [ex_msg1, ex_msg2, ex_msg3]\<rparr>"

definition ex_store :: store where
  "ex_store = \<lparr>users = [''u1'', ''u2''], chats = []\<rparr>"

lemmas ex_chat_defs =
  ex_msg1_def ex_msg2_def ex_msg3_def ex_chat_def ex_chat3_def ex_store_def ex_file_def

lemmas ex_campaign_defs =
  ex_influencer_def ex_selected_def ex_campaign_def ex_payload_def ex_empty_payload_def
  ex_file_def ex_brand_def ex_spec_def

section \<open>Budget recomputation\<close>

lemma foldl_rate_sum:
  "foldl (\<lambda>total si. total + rate_or_zero (agreedRate si)) a xs =
     a + (\<Sum>si\<leftarrow>xs. (case agreedRate si of None \<Rightarrow> 0 | Some v \<Rightarrow> v))"
  by (induction xs arbitrary: a) (auto simp: rate_or_zero_def split: option.splits)

lemma map_update_first:
  "(\<And>x. g (f x) = g x) \<Longrightarrow> map g (update_first P f xs) = map g xs"
  by (induction xs) auto

text \<open>
  The method computes the sum of the agreed rates, a missing rate counted as 0, and
  changes no rate.
\<close>

lemma calculateTotalBudget_sum:
  "totalBudgetAllocated (calculateTotalBudget c) = agreed_rate_sum c"
  "agreed_rate_sum (calculateTotalBudget c) = agreed_rate_sum c"
  by (simp_all add: calculateTotalBudget_def agreed_rate_sum_def foldl_rate_sum)

text \<open>
  Proof submission changes no agreed rate and leaves the stored total as it was: the
  save runs the pre-save hook, which stamps the modification time only.
\<close>

lemma submitProof_keeps_rates:
  assumes "submitProof i (Some c) pd files now = Inr c'"
  shows "map agreedRate (selectedInfluencers c') = map agreedRate (selectedInfluencers c)"
    and "totalBudgetAllocated c' = totalBudgetAllocated c"
  using assms
  by (auto simp: submitProof_def campaign_pre_save_def map_update_first
      split: option.splits if_splits json_payload.splits proof_body.splits)

lemma submitProof_keeps_total:
  assumes "submitProof i (Some c) pd files now = Inr c'"
  shows "agreed_rate_sum c' = agreed_rate_sum c \<and> totalBudgetAllocated c' = totalBudgetAllocated c"
proof -
  have sum: "agreed_rate_sum x =
      (\<Sum>r\<leftarrow>map agreedRate (selectedInfluencers x). (case r of None \<Rightarrow> 0 | Some v \<Rightarrow> v))" for x
    by (simp add: agreed_rate_sum_def comp_def)
  have "agreed_rate_sum c' = agreed_rate_sum c"
    by (simp only: sum submitProof_keeps_rates(1)[OF assms])
  with submitProof_keeps_rates(2)[OF assms] show ?thesis by simp
qed

text \<open>
  Claim C1 at a concrete request. The stored campaign has one selected influencer, in
  progress, with the agreed rate 100, and the allocated total 0 that the schema default
  gave it. The influencer submits the payload \<^verbatim>\<open>{}\<close> without files: the request
  succeeds, the entry is submitted, and the saved campaign still has the total 0 while
  the rates sum to 100, which is what \<^verbatim>\<open>calculateTotalBudget\<close> would have stored.
\<close>

theorem submitProof_budget_stale:
  "\<not> isl (submitProof (Some ex_influencer) (Some ex_campaign) (PD_json ex_empty_payload) [] 50)
   \<and> map si_status (selectedInfluencers
         (projr (submitProof (Some ex_influencer) (Some ex_campaign) (PD_json ex_empty_payload) [] 50))) =
       [SI_submitted]
   \<and> totalBudgetAllocated
         (projr (submitProof (Some ex_influencer) (Some ex_campaign) (PD_json ex_empty_payload) [] 50)) = 0
   \<and> agreed_rate_sum
         (projr (submitProof (Some ex_influencer) (Some ex_campaign) (PD_json ex_empty_payload) [] 50)) = 100
   \<and> totalBudgetAllocated (calculateTotalBudget
         (projr (submitProof (Some ex_influencer) (Some ex_campaign) (PD_json ex_empty_payload) [] 50))) = 100"
  by code_simp

section \<open>Campaign creation\<close>







text \<open>
  Two bodies that pass the validator chain and the timeline checks and that the schema
  rejects inside \<^verbatim>\<open>Campaign.create\<close>: a category outside the \<^verbatim>\<open>enum\<close>, and a title of
  white space, which is empty once trimmed. Both are answered with status 500, and
  nothing is created.
\<close>

lemma create_schema_rejections:
  "create (Some ex_brand) (ex_spec\<lparr>spec_category := ''pets''\<rparr>) ''c1'' 50 =
     Inl (500, ''Server error during campaign creation'')"
  "create (Some ex_brand) (ex_spec\<lparr>spec_title := '' ''\<rparr>) ''c1'' 50 =
     Inl (500, ''Server error during campaign creation'')"
  by code_simp+

section \<open>Applying to a campaign\<close>

lemma find_Some_set: "find P xs = Some x \<Longrightarrow> x \<in> set xs \<and> P x"
  by (induction xs) (auto split: if_splits)

text \<open>
  Claim C3. For an influencer profile and a campaign that exist, the apply handler answers
  with success exactly when the influencer is approved, the campaign is active, the clock
  is not after the application deadline and no application of the campaign carries this
  influencer's id. The first violated condition, in that order, decides the answer; the
  four answers are pairwise distinct (one with status 403, three with status 400 and
  different messages). On success the saved campaign is the old one with one pending
  application of this influencer, with the given rate and message, appended, and the
  modification timestamp refreshed.
\<close>

theorem apply_campaign_spec:
  "((\<exists>c'. apply_campaign (Some infl) (Some c) rate msg now = Inr c') \<longleftrightarrow>
      influencer_status infl = Inf_approved
      \<and> campaign_status c = Active
      \<and> now \<le> applicationDeadline (campaign_timeline c)
      \<and> (\<forall>app \<in> set (applications c). app_influencerId app \<noteq> influencer_id infl))
   \<and> (influencer_status infl \<noteq> Inf_approved \<longrightarrow>
        apply_campaign (Some infl) (Some c) rate msg now =
          Inl (403, ''Influencer profile must be approved to apply''))
   \<and> (influencer_status infl = Inf_approved \<and> campaign_status c \<noteq> Active \<longrightarrow>
        apply_campaign (Some infl) (Some c) rate msg now = Inl (400, ''Campaign is not active''))
   \<and> (influencer_status infl = Inf_approved \<and> campaign_status c = Active
        \<and> now > applicationDeadline (campaign_timeline c) \<longrightarrow>
        apply_campaign (Some infl) (Some c) rate msg now =
          Inl (400, ''Application deadline has passed''))
   \<and> (influencer_status infl = Inf_approved \<and> campaign_status c = Active
        \<and> now \<le> applicationDeadline (campaign_timeline c)
        \<and> (\<exists>app \<in> set (applications c). app_influencerId app = influencer_id infl) \<longrightarrow>
        apply_campaign (Some infl) (Some c) rate msg now =
          Inl (400, ''Already applied to this campaign''))
   \<and> distinct [(403::nat, ''Influencer profile must be approved to apply''),
                (400, ''Campaign is not active''),
                (400, ''Application deadline has passed''),
                (400, ''Already applied to this campaign'')]
   \<and> (\<forall>c'. apply_campaign (Some infl) (Some c) rate msg now = Inr c' \<longrightarrow>
        c' = c\<lparr>applications := applications c @
                  [\<lparr>app_influencerId = influencer_id infl, proposedRate = rate,
                    app_message = msg, app_status = App_pending, appliedAt = now\<rparr>],
                campaign_updatedAt := now\<rparr>)"
  by (auto simp: apply_campaign_def campaign_pre_save_def find_None_iff
      split: option.splits if_splits dest: find_Some_set)

theorem apply_campaign_spec_witness:
  "applications (projr (apply_campaign (Some ex_influencer) (Some ex_campaign) 150 (Some ''hello'') 50)) =
     [\<lparr>app_influencerId = ''i1'', proposedRate = 150, app_message = Some ''hello'',
       app_status = App_pending, appliedAt = 50\<rparr>]
   \<and> apply_campaign (Some ex_influencer)
        (Some (projr (apply_campaign (Some ex_influencer) (Some ex_campaign) 150 (Some ''hello'') 50)))
        150 (Some ''again'') 60 = Inl (400, ''Already applied to this campaign'')"
proof -
  let ?c1 = "projr (apply_campaign (Some ex_influencer) (Some ex_campaign) 150 (Some ''hello'') 50)"
  have ex: "influencer_status ex_influencer = Inf_approved" "campaign_status ex_campaign = Active"
    "50 \<le> applicationDeadline (campaign_timeline ex_campaign)"
    "\<forall>app \<in> set (applications ex_campaign). app_influencerId app \<noteq> influencer_id ex_influencer"
    "60 \<le> applicationDeadline (campaign_timeline ex_campaign)"
    "applications ex_campaign = []" "influencer_id ex_influencer = ''i1''"
    by (simp_all add: ex_campaign_defs)
  from apply_campaign_spec [of ex_influencer ex_campaign 150 "Some ''hello''" 50] ex(1-4)
  obtain c' where c': "apply_campaign (Some ex_influencer) (Some ex_campaign) 150 (Some ''hello'') 50 = Inr c'"
    by blast
  with apply_campaign_spec [of ex_influencer ex_campaign 150 "Some ''hello''" 50]
  have eq: "c' = ex_campaign\<lparr>applications := applications ex_campaign @
                  [\<lparr>app_influencerId = influencer_id ex_influencer, proposedRate = 150,
                    app_message = Some ''hello'', app_status = App_pending, appliedAt = 50\<rparr>],
                campaign_updatedAt := 50\<rparr>"
    by blast
  from c' have p: "?c1 = c'" by simp
  have first: "applications ?c1 =
     [\<lparr>app_influencerId = ''i1'', proposedRate = 150, app_message = Some ''hello'',
       app_status = App_pending, appliedAt = 50\<rparr>]"
    unfolding p eq by (simp add: ex(6,7))
  have "campaign_status ?c1 = Active" "60 \<le> applicationDeadline (campaign_timeline ?c1)"
    "\<exists>app \<in> set (applications ?c1). app_influencerId app = influencer_id ex_influencer"
    unfolding p eq by (simp_all add: ex)
  with apply_campaign_spec [of ex_influencer ?c1 150 "Some ''again''" 60] ex(1)
  have "apply_campaign (Some ex_influencer) (Some ?c1) 150 (Some ''again'') 60 =
      Inl (400, ''Already applied to this campaign'')"
    by blast
  with first show ?thesis by blast
qed

text \<open>
  Claim C9. An apply request against a campaign that is not active, or made after the
  application deadline, is answered with a failure and the stored campaign is the same
  document, field by field, as before. For an approved influencer the answer is status
  400 with the message for the inactive campaign or for the passed deadline.
\<close>

theorem apply_rejected_unchanged:
  assumes "campaign_status c \<noteq> Active \<or> now > applicationDeadline (campaign_timeline c)"
  shows "(\<exists>e. apply_campaign i (Some c) rate msg now = Inl e)
         \<and> campaign_after_apply i c rate msg now = c
         \<and> (\<forall>infl. i = Some infl \<and> influencer_status infl = Inf_approved \<longrightarrow>
              apply_campaign i (Some c) rate msg now =
                (if campaign_status c \<noteq> Active then Inl (400, ''Campaign is not active'')
                 else Inl (400, ''Application deadline has passed'')))"
  using assms
  by (auto simp: apply_campaign_def campaign_after_apply_def split: option.splits)

theorem apply_rejected_unchanged_witness:
  "apply_campaign (Some ex_influencer) (Some ex_campaign) 150 None 101 =
     Inl (400, ''Application deadline has passed'')
   \<and> campaign_after_apply (Some ex_influencer) ex_campaign 150 None 101 = ex_campaign
   \<and> apply_campaign (Some ex_influencer) (Some (ex_campaign\<lparr>campaign_status := Paused\<rparr>)) 150 None 50 =
     Inl (400, ''Campaign is not active'')
   \<and> campaign_after_apply (Some ex_influencer) (ex_campaign\<lparr>campaign_status := Paused\<rparr>) 150 None 50 =
     ex_campaign\<lparr>campaign_status := Paused\<rparr>"
proof -
  have late: "campaign_status ex_campaign \<noteq> Active
      \<or> 101 > applicationDeadline (campaign_timeline ex_campaign)"
    and paused: "campaign_status (ex_campaign\<lparr>campaign_status := Paused\<rparr>) \<noteq> Active
      \<or> 50 > applicationDeadline (campaign_timeline (ex_campaign\<lparr>campaign_status := Paused\<rparr>))"
    and ex: "influencer_status ex_influencer = Inf_approved" "campaign_status ex_campaign = Active"
    by (simp_all add: ex_campaign_defs)
  from apply_rejected_unchanged [OF late, of "Some ex_influencer" 150 None] ex
  have 1: "apply_campaign (Some ex_influencer) (Some ex_campaign) 150 None 101 =
     Inl (400, ''Application deadline has passed'')"
    "campaign_after_apply (Some ex_influencer) ex_campaign 150 None 101 = ex_campaign"
    by simp_all
  from apply_rejected_unchanged [OF paused, of "Some ex_influencer" 150 None] ex
  have 2: "apply_campaign (Some ex_influencer) (Some (ex_campaign\<lparr>campaign_status := Paused\<rparr>)) 150 None 50 =
     Inl (400, ''Campaign is not active'')"
    "campaign_after_apply (Some ex_influencer) (ex_campaign\<lparr>campaign_status := Paused\<rparr>) 150 None 50 =
     ex_campaign\<lparr>campaign_status := Paused\<rparr>"
    by simp_all
  from 1 2 show ?thesis by blast
qed

section \<open>Submitting proof of work\<close>

lemma update_first_split:
  "find P xs = Some x \<Longrightarrow>
     \<exists>pre post. xs = pre @ x # post \<and> (\<forall>y \<in> set pre. \<not> P y) \<and> P x
        \<and> update_first P f xs = pre @ f x # post"
proof (induction xs)
  case Nil
  then show ?case by simp
next
  case (Cons a xs)
  show ?case
  proof (cases "P a")
    case True
    with Cons.prems have "a = x" by simp
    with True show ?thesis by (intro exI[of _ "[]"] exI[of _ xs]) simp
  next
    case False
    with Cons.prems have "find P xs = Some x" by simp
    from Cons.IH[OF this] obtain pre post where
      "xs = pre @ x # post" "\<forall>y \<in> set pre. \<not> P y" "P x"
      "update_first P f xs = pre @ f x # post" by blast
    with False show ?thesis by (intro exI[of _ "a # pre"] exI[of _ post]) simp
  qed
qed

lemma find_update_first:
  "find P xs = Some x \<Longrightarrow> P (f x) \<Longrightarrow> find P (update_first P f xs) = Some (f x)"
  by (induction xs) (auto split: if_splits)

lemma proofs_empty:
  "file_proofs pd files = [] \<longleftrightarrow> files = []"
  "url_proofs us = [] \<longleftrightarrow> us = []"
  by (simp_all add: file_proofs_def url_proofs_def)

text \<open>
  What the handler does with a payload that carries a proof: with an entry in progress
  and any uploaded file or url entry, the answer is status 500.
\<close>

lemma submitProof_rejects_proofs:
  assumes "find (\<lambda>si. si_influencerId si = influencer_id infl) (selectedInfluencers c) = Some si"
    and "si_status si = SI_in_progress"
    and "files \<noteq> [] \<or> payload_urls urls \<noteq> []"
  shows "submitProof (Some infl) (Some c) (PD_json (Payload platform type urls)) files now =
           Inl (500, ''Server error'')"
  using assms by (auto simp: submitProof_def push_proofs_def proofs_empty)

text \<open>The requests that succeed are those of an entry in progress that bring no proof.\<close>

lemma submitProof_success_iff:
  "(\<exists>c'. submitProof (Some infl) (Some c) pd files now = Inr c') \<longleftrightarrow>
     (\<exists>si. find (\<lambda>si. si_influencerId si = influencer_id infl) (selectedInfluencers c) = Some si
           \<and> si_status si = SI_in_progress)
     \<and> (\<exists>platform type urls. pd = PD_json (Payload platform type urls)
           \<and> payload_urls urls = [] \<and> files = [])"
  by (auto simp: submitProof_def push_proofs_def proofs_empty validation_failed_def
      split: option.splits json_payload.splits proof_body.splits)

lemma submitProof_failures:
  "pd \<noteq> PD_empty \<Longrightarrow>
   find (\<lambda>si. si_influencerId si = influencer_id infl) (selectedInfluencers c) = None \<Longrightarrow>
     submitProof (Some infl) (Some c) pd files now = Inl (403, ''Not authorized for this campaign'')"
  "pd \<noteq> PD_empty \<Longrightarrow>
   find (\<lambda>si. si_influencerId si = influencer_id infl) (selectedInfluencers c) = Some si \<Longrightarrow>
     si_status si \<noteq> SI_in_progress \<Longrightarrow>
     submitProof (Some infl) (Some c) pd files now = Inl (400, ''Campaign is not in progress'')"
  "find (\<lambda>si. si_influencerId si = influencer_id infl) (selectedInfluencers c) = Some si \<Longrightarrow>
     si_status si = SI_in_progress \<Longrightarrow>
     submitProof (Some infl) (Some c) PD_malformed files now = Inl (400, ''Invalid proof data format'')"
  by (simp_all add: submitProof_def)

lemma submitProof_effect:
  assumes "submitProof (Some infl) (Some c) pd files now = Inr c'"
  shows "\<exists>pre si post.
          selectedInfluencers c = pre @ si # post
          \<and> (\<forall>s \<in> set pre. si_influencerId s \<noteq> influencer_id infl)
          \<and> si_influencerId si = influencer_id infl
          \<and> si_status si = SI_in_progress
          \<and> c' = c\<lparr>selectedInfluencers :=
                pre @ si\<lparr>si_status := SI_submitted, submittedAt := Some now\<rparr> # post,
              campaign_updatedAt := now\<rparr>"
proof -
  let ?P = "\<lambda>si. si_influencerId si = influencer_id infl"
  from assms obtain si platform type urls where
    f: "find ?P (selectedInfluencers c) = Some si" and st: "si_status si = SI_in_progress"
    and pd: "pd = PD_json (Payload platform type urls)"
    and nn: "payload_urls urls = []" "files = []"
    using submitProof_success_iff[of infl c pd files now] by blast
  let ?f = "\<lambda>s. s\<lparr>proofOfWork := proofOfWork si, si_status := SI_submitted,
                  submittedAt := Some now\<rparr>"
  from update_first_split[OF f, of ?f] obtain pre post where
    sp: "selectedInfluencers c = pre @ si # post" "\<forall>y \<in> set pre. \<not> ?P y" "?P si"
    "update_first ?P ?f (selectedInfluencers c) = pre @ ?f si # post" by blast
  from assms f st pd nn have "c' = c\<lparr>selectedInfluencers := update_first ?P ?f (selectedInfluencers c),
      campaign_updatedAt := now\<rparr>"
    by (simp add: submitProof_def campaign_pre_save_def push_proofs_def proofs_empty)
  with sp have "c' = c\<lparr>selectedInfluencers := pre @ ?f si # post, campaign_updatedAt := now\<rparr>"
    by simp
  with sp(1-3) st show ?thesis
    by simp blast
qed

lemma submitProof_twice:
  assumes "submitProof (Some infl) (Some c) pd files now = Inr c'" and "pd2 \<noteq> PD_empty"
  shows "submitProof (Some infl) (Some c') pd2 files2 now2 = Inl (400, ''Campaign is not in progress'')"
proof -
  let ?P = "\<lambda>si. si_influencerId si = influencer_id infl"
  from submitProof_effect[OF assms(1)] obtain pre si post where
    e: "(\<forall>s \<in> set pre. \<not> ?P s)" "?P si"
      "selectedInfluencers c' = pre @ si\<lparr>si_status := SI_submitted, submittedAt := Some now\<rparr> # post"
    by auto
  have "find ?P (pre @ x # post) = Some x" if "?P x" for x
    using e(1) that by (induction pre) auto
  from this[of "si\<lparr>si_status := SI_submitted, submittedAt := Some now\<rparr>"] e(2,3)
  have "find ?P (selectedInfluencers c') = Some (si\<lparr>si_status := SI_submitted, submittedAt := Some now\<rparr>)"
    by simp
  then show ?thesis
    by (rule submitProof_failures(2)[OF assms(2)]) simp
qed

text \<open>
  Claim C4 at concrete requests. The campaign has one entry, of this influencer and in
  progress. A submission with an uploaded file and a url entry, one with the url entry
  alone and one with the file alone are each answered with status 500: the push of a
  proof object into the array of strings throws. No proof is appended and the entry is
  not submitted.
\<close>

theorem submitProof_proof_rejected:
  "map si_influencerId (selectedInfluencers ex_campaign) = [influencer_id ex_influencer]
   \<and> map si_status (selectedInfluencers ex_campaign) = [SI_in_progress]
   \<and> submitProof (Some ex_influencer) (Some ex_campaign) (PD_json ex_payload) [ex_file] 50 =
       Inl (500, ''Server error'')
   \<and> submitProof (Some ex_influencer) (Some ex_campaign) (PD_json ex_payload) [] 50 =
       Inl (500, ''Server error'')
   \<and> submitProof (Some ex_influencer) (Some ex_campaign) (PD_json ex_empty_payload) [ex_file] 50 =
       Inl (500, ''Server error'')"
  by code_simp

section \<open>Read tracking\<close>

lemma read_by_entries: "read_by u m \<longleftrightarrow> 0 < read_entries u m"
  by (auto simp: read_by_def read_entries_def list_ex_iff filter_empty_conv)

lemma mark_read_read: "read_by user (mark_read user now m)"
  by (simp add: mark_read_def read_by_def)

lemma mark_read_idem: "read_by user m \<Longrightarrow> mark_read user now m = m"
  by (simp add: mark_read_def)

lemma read_entries_mark_read:
  "read_entries u (mark_read user now m) =
     (if u = user then max 1 (read_entries u m) else read_entries u m)"
proof (cases "read_by user m")
  case True
  with read_by_entries[of user m] have "max 1 (read_entries user m) = read_entries user m"
    by simp
  with True show ?thesis by (simp add: mark_read_def)
next
  case False
  with read_by_entries[of user m] have "read_entries user m = 0" by simp
  with False show ?thesis by (auto simp: mark_read_def read_entries_def)
qed

lemma map_mark_read_idem:
  "\<forall>m \<in> set ms. read_by user m \<Longrightarrow> map (mark_read user now) ms = ms"
  by (induction ms) (auto simp: mark_read_idem)

lemma fetchPage_chat:
  assumes "user \<in> set (participants ch)"
  shows "\<exists>r. fetchPage (Some ch) user page limit now = Inr r
           \<and> messages (fr_chat r) = map (mark_read user now) (messages ch)
           \<and> ((\<forall>m \<in> set (messages ch). read_by user m) \<longrightarrow> fr_chat r = ch)"
proof (cases "\<forall>m \<in> set (messages ch). read_by user m")
  case True
  then have "filter (\<lambda>msg. \<not> read_by user msg) (messages ch) = []"
    by (simp add: filter_empty_conv)
  with assms True show ?thesis
    by (simp add: fetchPage_def Let_def list_ex_iff map_mark_read_idem)
next
  case False
  then have "filter (\<lambda>msg. \<not> read_by user msg) (messages ch) \<noteq> []"
    by (simp add: filter_empty_conv)
  with assms False show ?thesis
    by (auto simp: fetchPage_def Let_def list_ex_iff chat_pre_save_def)
qed

lemma markAllRead_chat:
  assumes "user \<in> set (participants ch)"
  shows "\<exists>ch'. markAllRead (Some ch) user now = Inr ch'
           \<and> messages ch' = map (mark_read user now) (messages ch)
           \<and> ((\<forall>m \<in> set (messages ch). read_by user m) \<longrightarrow> ch' = ch)"
proof (cases "\<forall>m \<in> set (messages ch). read_by user m")
  case True
  with assms show ?thesis
    by (simp add: markAllRead_def Let_def list_ex_iff map_mark_read_idem)
next
  case False
  with assms show ?thesis
    by (auto simp: markAllRead_def Let_def list_ex_iff chat_pre_save_def)
qed

text \<open>
  Claim C8. When a participant fetches a page, whatever the page and the page size, every
  message of the saved chat has a read entry of that participant. The number of entries
  of the requester in a message becomes 1 if it was 0 and stays as it was otherwise, and
  the entries of every other user are untouched; so a chat in which each message holds
  at most one entry per user stays so. Any later fetch or mark-all-read request of the
  same participant leaves the chat exactly as it is. The same holds when the first
  request is a mark-all-read.
\<close>

theorem fetchPage_marks_all_read:
  assumes "user \<in> set (participants ch)"
  shows "\<exists>r. fetchPage (Some ch) user page limit now = Inr r
     \<and> (\<forall>m \<in> set (messages (fr_chat r)). read_by user m)
     \<and> (\<forall>u. map (read_entries u) (messages (fr_chat r)) =
              map (\<lambda>m. if u = user then max 1 (read_entries u m) else read_entries u m)
                (messages ch))
     \<and> ((\<forall>m \<in> set (messages ch). \<forall>u. read_entries u m \<le> 1) \<longrightarrow>
          (\<forall>m \<in> set (messages (fr_chat r)). \<forall>u. read_entries u m \<le> 1))
     \<and> (\<forall>page2 limit2 now2. \<exists>r2.
           fetchPage (Some (fr_chat r)) user page2 limit2 now2 = Inr r2 \<and> fr_chat r2 = fr_chat r)
     \<and> (\<forall>now2. markAllRead (Some (fr_chat r)) user now2 = Inr (fr_chat r))
     \<and> (\<exists>ch'. markAllRead (Some ch) user now = Inr ch'
           \<and> (\<forall>m \<in> set (messages ch'). read_by user m)
           \<and> (\<forall>u. map (read_entries u) (messages ch') =
              map (\<lambda>m. if u = user then max 1 (read_entries u m) else read_entries u m)
                (messages ch))
           \<and> (\<forall>page2 limit2 now2. \<exists>r2.
                 fetchPage (Some ch') user page2 limit2 now2 = Inr r2 \<and> fr_chat r2 = ch')
           \<and> (\<forall>now2. markAllRead (Some ch') user now2 = Inr ch'))"
proof -
  from fetchPage_chat[OF assms, of page limit now] obtain r where
    r: "fetchPage (Some ch) user page limit now = Inr r"
    and rm: "messages (fr_chat r) = map (mark_read user now) (messages ch)" by blast
  from markAllRead_chat[OF assms, of now] obtain ch' where
    c: "markAllRead (Some ch) user now = Inr ch'"
    and cm: "messages ch' = map (mark_read user now) (messages ch)" by blast
  have part: "user \<in> set (participants (fr_chat r))" "user \<in> set (participants ch')"
    using assms r c
    by (auto simp: fetchPage_def markAllRead_def Let_def chat_pre_save_def list_ex_iff
        split: if_splits)
  have all: "\<forall>m \<in> set (messages X). read_by user m"
    if "messages X = map (mark_read user now) (messages ch)" for X
    using that by (simp add: mark_read_read)
  have cnt: "map (read_entries u) (messages X) =
      map (\<lambda>m. if u = user then max 1 (read_entries u m) else read_entries u m) (messages ch)"
    if "messages X = map (mark_read user now) (messages ch)" for X u
    using that by (simp add: read_entries_mark_read comp_def)
  have inv: "\<forall>m \<in> set (messages X). \<forall>u. read_entries u m \<le> 1"
    if "messages X = map (mark_read user now) (messages ch)"
      and "\<forall>m \<in> set (messages ch). \<forall>u. read_entries u m \<le> 1" for X
    using that by (auto simp: read_entries_mark_read)
  have again_f: "\<exists>r2. fetchPage (Some X) user page2 limit2 now2 = Inr r2 \<and> fr_chat r2 = X"
    if "user \<in> set (participants X)" "\<forall>m \<in> set (messages X). read_by user m"
    for X page2 limit2 now2
    using fetchPage_chat[OF that(1), of page2 limit2 now2] that(2) by blast
  have again_m: "markAllRead (Some X) user now2 = Inr X"
    if "user \<in> set (participants X)" "\<forall>m \<in> set (messages X). read_by user m"
    for X now2
    using markAllRead_chat[OF that(1), of now2] that(2) by auto
  have fetch_part: "(\<forall>m \<in> set (messages (fr_chat r)). read_by user m)
     \<and> (\<forall>u. map (read_entries u) (messages (fr_chat r)) =
              map (\<lambda>m. if u = user then max 1 (read_entries u m) else read_entries u m)
                (messages ch))
     \<and> ((\<forall>m \<in> set (messages ch). \<forall>u. read_entries u m \<le> 1) \<longrightarrow>
          (\<forall>m \<in> set (messages (fr_chat r)). \<forall>u. read_entries u m \<le> 1))
     \<and> (\<forall>page2 limit2 now2. \<exists>r2.
           fetchPage (Some (fr_chat r)) user page2 limit2 now2 = Inr r2 \<and> fr_chat r2 = fr_chat r)
     \<and> (\<forall>now2. markAllRead (Some (fr_chat r)) user now2 = Inr (fr_chat r))"
    using all[OF rm] cnt[OF rm] inv[OF rm]
      again_f[OF part(1) all[OF rm]] again_m[OF part(1) all[OF rm]]
    by (intro conjI allI impI)
  have mark_part: "(\<forall>m \<in> set (messages ch'). read_by user m)
           \<and> (\<forall>u. map (read_entries u) (messages ch') =
              map (\<lambda>m. if u = user then max 1 (read_entries u m) else read_entries u m)
                (messages ch))
           \<and> (\<forall>page2 limit2 now2. \<exists>r2.
                 fetchPage (Some ch') user page2 limit2 now2 = Inr r2 \<and> fr_chat r2 = ch')
           \<and> (\<forall>now2. markAllRead (Some ch') user now2 = Inr ch')"
    using all[OF cm] cnt[OF cm]
      again_f[OF part(2) all[OF cm]] again_m[OF part(2) all[OF cm]]
    by (intro conjI allI impI)
  from r c fetch_part mark_part show ?thesis
    by (intro exI[of _ r] conjI exI[of _ ch']) (rule TrueI | assumption | (elim conjE, assumption))+
qed

theorem fetchPage_marks_all_read_witness:
  "map (read_entries ''u2'') (messages (fr_chat (projr (fetchPage (Some ex_chat) ''u2'' 1 1 60)))) =
     [1, 1]
   \<and> map (read_entries ''u1'') (messages (fr_chat (projr (fetchPage (Some ex_chat) ''u2'' 1 1 60)))) =
     [1, 1]
   \<and> markAllRead (Some (fr_chat (projr (fetchPage (Some ex_chat) ''u2'' 1 1 60)))) ''u2'' 70 =
     Inr (fr_chat (projr (fetchPage (Some ex_chat) ''u2'' 1 1 60)))"
proof -
  have p: "''u2'' \<in> set (participants ex_chat)"
    by (simp add: ex_chat_defs)
  have before: "map (read_entries ''u2'') (messages ex_chat) = [0, 0]"
    "map (read_entries ''u1'') (messages ex_chat) = [1, 1]"
    by (simp_all add: ex_chat_defs read_entries_def)
  from fetchPage_marks_all_read [OF p, of 1 1 60] obtain r where
    r: "fetchPage (Some ex_chat) ''u2'' 1 1 60 = Inr r"
    and cnt: "\<forall>u. map (read_entries u) (messages (fr_chat r)) =
              map (\<lambda>m. if u = ''u2'' then max 1 (read_entries u m) else read_entries u m)
                (messages ex_chat)"
    and again: "\<forall>now2. markAllRead (Some (fr_chat r)) ''u2'' now2 = Inr (fr_chat r)"
    by blast
  have "map (\<lambda>m. max 1 (read_entries ''u2'' m)) (messages ex_chat) =
      map (max 1) (map (read_entries ''u2'') (messages ex_chat))"
    by simp
  with cnt before have "map (read_entries ''u2'') (messages (fr_chat r)) = [1, 1]"
    "map (read_entries ''u1'') (messages (fr_chat r)) = [1, 1]"
    by simp_all
  with again r show ?thesis by simp
qed

section \<open>Fetching a page\<close>

lemma mark_read_fields:
  "senderId (mark_read user now m) = senderId m"
  "content (mark_read user now m) = content m"
  "createdAt (mark_read user now m) = createdAt m"
  by (simp_all add: mark_read_def)

lemma js_slice_in_range:
  assumes "0 \<le> k" "k \<le> int (length xs)" "0 \<le> l"
  shows "js_slice xs (max 0 (int (length xs) - k - l)) (int (length xs) - k) =
           drop (nat (max 0 (int (length xs) - k - l))) (take (nat (int (length xs) - k)) xs)"
  using assms by (simp add: js_slice_def Let_def drop_take min_def max_def nat_diff_distrib')

lemma rev_window:
  assumes "0 \<le> k" "k \<le> int (length xs)" "0 \<le> l"
  shows "rev (drop (nat (max 0 (int (length xs) - k - l))) (take (nat (int (length xs) - k)) xs)) =
           take (nat l) (drop (nat k) (rev xs))"
proof -
  have "nat (max 0 (int (length xs) - k - l)) = length xs - nat k - nat l"
    using assms by (simp add: max_def nat_diff_distrib')
  moreover have "nat (int (length xs) - k) = length xs - nat k"
    using assms by (simp add: nat_diff_distrib')
  moreover have "take (nat l) (drop (nat k) (rev xs)) =
      rev (drop (length xs - nat k - nat l) (take (length xs - nat k) xs))"
  proof -
    have "take (nat l) (drop (nat k) (rev xs)) = take (nat l) (rev (take (length xs - nat k) xs))"
      by (simp add: drop_rev)
    also have "\<dots> = rev (drop (length (take (length xs - nat k) xs) - nat l)
                          (take (length xs - nat k) xs))"
      by (simp only: take_rev)
    also have "length (take (length xs - nat k) xs) = length xs - nat k"
      by simp
    finally show ?thesis .
  qed
  ultimately show ?thesis by simp
qed

lemma fetchPage_result:
  assumes "user \<in> set (participants ch)"
  shows "\<exists>r. fetchPage (Some ch) user page limit now = Inr r
           \<and> messages (fr_chat r) = map (mark_read user now) (messages ch)
           \<and> fr_messages r = rev (js_slice (messages (fr_chat r))
                 (max 0 (int (length (messages ch)) - page * limit))
                 (int (length (messages ch)) - (page - 1) * limit))"
proof (cases "\<forall>m \<in> set (messages ch). read_by user m")
  case True
  then have "filter (\<lambda>msg. \<not> read_by user msg) (messages ch) = []"
    by (simp add: filter_empty_conv)
  moreover from True have "map (mark_read user now) (messages ch) = messages ch"
    by (induction "messages ch") (auto simp: mark_read_def map_idI)
  ultimately show ?thesis using assms
    by (simp add: fetchPage_def Let_def list_ex_iff)
next
  case False
  then have "filter (\<lambda>msg. \<not> read_by user msg) (messages ch) \<noteq> []"
    by (simp add: filter_empty_conv)
  with assms show ?thesis
    by (simp add: fetchPage_def Let_def list_ex_iff chat_pre_save_def)
qed

text \<open>
  Claim C2, as the code has it. For a participant, a page number and a page size of at
  least 1, and a page that does not begin beyond the oldest message, the handler returns
  the messages from index \<open>max 0 (n - page * limit)\<close> up to \<open>n - (page - 1) * limit\<close> in
  reverse order, newest first: the \<open>limit\<close> most recent messages after skipping the
  \<open>(page - 1) * limit\<close> newest. The messages are those of the chat, with the requester's
  read entries added.
\<close>

theorem fetchPage_newest_first:
  assumes "user \<in> set (participants ch)" and "1 \<le> page" and "1 \<le> limit"
    and "(page - 1) * limit \<le> int (length (messages ch))"
  shows "\<exists>r. fetchPage (Some ch) user page limit now = Inr r
     \<and> fr_messages r =
         rev (drop (nat (max 0 (int (length (messages ch)) - page * limit)))
               (take (nat (int (length (messages ch)) - (page - 1) * limit))
                 (messages (fr_chat r))))
     \<and> fr_messages r = take (nat limit) (drop (nat ((page - 1) * limit)) (rev (messages (fr_chat r))))
     \<and> map senderId (messages (fr_chat r)) = map senderId (messages ch)
     \<and> map content (messages (fr_chat r)) = map content (messages ch)
     \<and> map createdAt (messages (fr_chat r)) = map createdAt (messages ch)"
proof -
  from fetchPage_result[OF assms(1), of page limit now] obtain r where
    r: "fetchPage (Some ch) user page limit now = Inr r"
    and m: "messages (fr_chat r) = map (mark_read user now) (messages ch)"
    and p: "fr_messages r = rev (js_slice (messages (fr_chat r))
                 (max 0 (int (length (messages ch)) - page * limit))
                 (int (length (messages ch)) - (page - 1) * limit))" by blast
  let ?xs = "messages (fr_chat r)" and ?k = "(page - 1) * limit"
  have len: "length ?xs = length (messages ch)" by (simp add: m)
  have k: "0 \<le> ?k" "?k \<le> int (length ?xs)" "0 \<le> limit"
    using assms(2-4) len by simp_all
  have eq: "int (length (messages ch)) - page * limit = int (length ?xs) - ?k - limit"
    by (simp add: len algebra_simps)
  have 1: "fr_messages r =
         rev (drop (nat (max 0 (int (length (messages ch)) - page * limit)))
               (take (nat (int (length (messages ch)) - (page - 1) * limit)) ?xs))"
    unfolding p eq using js_slice_in_range[OF k] by (simp add: len)
  have 2: "fr_messages r = take (nat limit) (drop (nat ?k) (rev ?xs))"
    unfolding 1 eq using rev_window[OF k] by (simp add: len)
  have 3: "map senderId ?xs = map senderId (messages ch)"
    "map content ?xs = map content (messages ch)"
    "map createdAt ?xs = map createdAt (messages ch)"
    by (simp_all add: m mark_read_fields comp_def)
  from r 1 2 3 show ?thesis by blast
qed

theorem fetchPage_newest_first_witness:
  "map content (messages ex_chat3) = [''first'', ''second'', ''third'']
   \<and> map content (fr_messages (projr (fetchPage (Some ex_chat3) ''u2'' 1 2 60))) =
       [''third'', ''second'']
   \<and> map content (fr_messages (projr (fetchPage (Some ex_chat3) ''u2'' 2 2 60))) = [''first'']"
proof -
  have p: "''u2'' \<in> set (participants ex_chat3)" and one: "(1::int) \<le> 1" and two: "(1::int) \<le> 2"
    and r1: "(1 - 1) * 2 \<le> int (length (messages ex_chat3))"
    and r2: "(2 - 1) * 2 \<le> int (length (messages ex_chat3))"
    and c: "map content (messages ex_chat3) = [''first'', ''second'', ''third'']"
    by (simp_all add: ex_chat_defs)
  from fetchPage_newest_first [OF p one two r1, of 60] obtain ra where
    a: "fetchPage (Some ex_chat3) ''u2'' 1 2 60 = Inr ra"
      "fr_messages ra = take (nat 2) (drop (nat ((1 - 1) * 2)) (rev (messages (fr_chat ra))))"
      "map content (messages (fr_chat ra)) = map content (messages ex_chat3)"
    by blast
  from fetchPage_newest_first [OF p two two r2, of 60] obtain rb where
    b: "fetchPage (Some ex_chat3) ''u2'' 2 2 60 = Inr rb"
      "fr_messages rb = take (nat 2) (drop (nat ((2 - 1) * 2)) (rev (messages (fr_chat rb))))"
      "map content (messages (fr_chat rb)) = map content (messages ex_chat3)"
    by blast
  have "map content (fr_messages ra) =
      take 2 (rev (map content (messages (fr_chat ra))))"
    unfolding a(2) by (simp add: take_map rev_map)
  then have A: "map content (fr_messages ra) = [''third'', ''second'']"
    unfolding a(3) c by simp
  have "map content (fr_messages rb) =
      take 2 (drop 2 (rev (map content (messages (fr_chat rb)))))"
    unfolding b(2) by (simp add: take_map drop_map rev_map)
  then have B: "map content (fr_messages rb) = [''first'']"
    unfolding b(3) c by simp
  from A B c a(1) b(1) show ?thesis by simp
qed

text \<open>
  Claim C2, as stated, fails: of a chat whose messages are first, second in chronological
  order, the first page comes back as second, first.
\<close>

theorem fetchPage_order_counterexample:
  "map content (messages ex_chat) = [''first'', ''second'']
   \<and> map createdAt (messages ex_chat) = [10, 20]
   \<and> map content (fr_messages (projr (fetchPage (Some ex_chat) ''u2'' 1 50 60))) =
       [''second'', ''first'']
   \<and> map createdAt (fr_messages (projr (fetchPage (Some ex_chat) ''u2'' 1 50 60))) = [20, 10]"
  by code_simp

text \<open>
  A page that begins beyond the oldest message has a negative end index, which
  \<^verbatim>\<open>slice\<close> counts from the end of the array: page 4 of size 1 of the two-message chat
  is not empty.
\<close>

lemma fetchPage_past_the_oldest:
  "map content (fr_messages (projr (fetchPage (Some ex_chat) ''u2'' 4 1 60))) = [''first'']"
  by code_simp

section \<open>Direct chats\<close>

lemma direct_match_sym: "direct_match a b = direct_match b a"
  by (rule ext) (auto simp: direct_match_def)

lemma find_append_new:
  "find P xs = None \<Longrightarrow> P y \<Longrightarrow> find P (xs @ [y]) = Some y"
  by (induction xs) (auto split: if_splits)

lemma find_filter_hd:
  "find P xs = (if filter P xs = [] then None else Some (hd (filter P xs)))"
  by (induction xs) auto

lemma filter_append_new:
  "find P xs = None \<Longrightarrow> P y \<Longrightarrow> filter P (xs @ [y]) = [y]"
  by (induction xs) (auto split: if_splits)

lemma getOrCreateDirect_found:
  assumes "b \<in> set (users st)" and "find (direct_match a b) (chats st) = Some ch"
  shows "getOrCreateDirect st a b new_id now =
           Inr (st, if length (messages ch) = 0 then ''Chat created successfully'' else ''Chat found'', ch)"
  using assms by (simp add: getOrCreateDirect_def Let_def)

lemma getOrCreateDirect_created:
  assumes "b \<in> set (users st)" and "find (direct_match a b) (chats st) = None"
  shows "getOrCreateDirect st a b new_id now =
           Inr (st\<lparr>chats := chats st @
                   [\<lparr>chat_id = new_id, participants = [a, b], chat_campaignId = None,
                     chatType = Direct, messages = [],
                     lastMessage = \<lparr>lm_content = None, lm_senderId = None, lm_createdAt = None\<rparr>,
                     isActive = True, chat_createdAt = now, chat_updatedAt = now\<rparr>]\<rparr>,
                ''Chat created successfully'',
                \<lparr>chat_id = new_id, participants = [a, b], chat_campaignId = None,
                  chatType = Direct, messages = [],
                  lastMessage = \<lparr>lm_content = None, lm_senderId = None, lm_createdAt = None\<rparr>,
                  isActive = True, chat_createdAt = now, chat_updatedAt = now\<rparr>)"
  using assms by (simp add: getOrCreateDirect_def Let_def)

text \<open>
  Claim C6. For two users that exist, the direct-chat request of \<open>a\<close> for \<open>b\<close> answers with
  a chat; asking again, as \<open>a\<close> for \<open>b\<close> or as \<open>b\<close> for \<open>a\<close>, answers with that same chat
  (so the same id) and leaves the store as the first request left it. The first request
  leaves the store unchanged when a direct chat holding both users exists, and answers
  with the first such chat; only when there is none does it add one chat, with the two
  participants and no messages, after which the store holds exactly one direct chat of
  the pair.
\<close>

theorem getOrCreateDirect_idempotent:
  assumes "a \<in> set (users st)" and "b \<in> set (users st)"
  shows "\<exists>st1 m1 ch. getOrCreateDirect st a b id1 t1 = Inr (st1, m1, ch)
     \<and> (\<forall>id2 t2. \<exists>m2. getOrCreateDirect st1 a b id2 t2 = Inr (st1, m2, ch))
     \<and> (\<forall>id2 t2. \<exists>m2. getOrCreateDirect st1 b a id2 t2 = Inr (st1, m2, ch))
     \<and> (direct_chats_of st a b \<noteq> [] \<longrightarrow> st1 = st \<and> ch = hd (direct_chats_of st a b))
     \<and> (direct_chats_of st a b = [] \<longrightarrow>
          chats st1 = chats st @ [ch] \<and> users st1 = users st
          \<and> chat_id ch = id1 \<and> participants ch = [a, b] \<and> chatType ch = Direct
          \<and> messages ch = [] \<and> direct_chats_of st1 a b = [ch])"
proof (cases "find (direct_match a b) (chats st)")
  case (Some ch)
  have ba: "find (direct_match b a) (chats st) = Some ch"
    using Some by (simp only: direct_match_sym[of b a])
  have ne: "direct_chats_of st a b \<noteq> []" "ch = hd (direct_chats_of st a b)"
    using Some by (auto simp: direct_chats_of_def find_filter_hd split: if_splits)
  show ?thesis
    using getOrCreateDirect_found[OF assms(2) Some] getOrCreateDirect_found[OF assms(1) ba] ne
    by (intro exI[of _ st] exI[of _ ch] exI conjI allI impI) (simp_all)
next
  case None
  let ?ch = "\<lparr>chat_id = id1, participants = [a, b], chat_campaignId = None,
                  chatType = Direct, messages = [],
                  lastMessage = \<lparr>lm_content = None, lm_senderId = None, lm_createdAt = None\<rparr>,
                  isActive = True, chat_createdAt = t1, chat_updatedAt = t1\<rparr>"
  let ?st1 = "st\<lparr>chats := chats st @ [?ch]\<rparr>"
  have m: "direct_match a b ?ch" by (simp add: direct_match_def)
  have ab: "find (direct_match a b) (chats ?st1) = Some ?ch"
    using find_append_new[OF None m] by simp
  have ba: "find (direct_match b a) (chats ?st1) = Some ?ch"
    using ab by (simp only: direct_match_sym[of b a])
  have u: "a \<in> set (users ?st1)" "b \<in> set (users ?st1)" using assms by simp_all
  have e: "direct_chats_of st a b = []" "direct_chats_of ?st1 a b = [?ch]"
    using None filter_append_new[OF None m]
    by (auto simp: direct_chats_of_def find_filter_hd split: if_splits)
  show ?thesis
    using getOrCreateDirect_created[OF assms(2) None, of id1 t1]
      getOrCreateDirect_found[OF u(2) ab] getOrCreateDirect_found[OF u(1) ba] e
    by (intro exI[of _ ?st1] exI[of _ ?ch] exI conjI allI impI) (simp_all)
qed

theorem getOrCreateDirect_idempotent_witness:
  "chat_id (snd (snd (projr (getOrCreateDirect ex_store ''u1'' ''u2'' ''ch1'' 5)))) = ''ch1''
   \<and> (\<exists>m2. getOrCreateDirect (fst (projr (getOrCreateDirect ex_store ''u1'' ''u2'' ''ch1'' 5)))
               ''u2'' ''u1'' ''ch2'' 6 =
            Inr (fst (projr (getOrCreateDirect ex_store ''u1'' ''u2'' ''ch1'' 5)), m2,
                 snd (snd (projr (getOrCreateDirect ex_store ''u1'' ''u2'' ''ch1'' 5)))))
   \<and> length (chats (fst (projr (getOrCreateDirect ex_store ''u1'' ''u2'' ''ch1'' 5)))) = 1"
proof -
  have u: "''u1'' \<in> set (users ex_store)" "''u2'' \<in> set (users ex_store)"
    and e: "direct_chats_of ex_store ''u1'' ''u2'' = []" "chats ex_store = []"
    by (simp_all add: ex_chat_defs direct_chats_of_def)
  from getOrCreateDirect_idempotent [OF u, of "''ch1''" 5] e(1) obtain st1 m1 ch where
    r: "getOrCreateDirect ex_store ''u1'' ''u2'' ''ch1'' 5 = Inr (st1, m1, ch)"
    and again: "\<forall>id2 t2. \<exists>m2. getOrCreateDirect st1 ''u2'' ''u1'' id2 t2 = Inr (st1, m2, ch)"
    and new: "chats st1 = chats ex_store @ [ch]" "chat_id ch = ''ch1''"
    by blast
  from again have "\<exists>m2. getOrCreateDirect st1 ''u2'' ''u1'' ''ch2'' 6 = Inr (st1, m2, ch)"
    by blast
  with r new e(2) show ?thesis by simp
qed

section \<open>Sending a message\<close>



lemma sendMessage_invalid:
  "sendMessage ch user [] mt upl now = Inl (400, ''Validation failed'')"
  by (simp add: sendMessage_def validation_failed_def)

lemma sendMessage_unauthorized:
  "cont \<noteq> [] \<Longrightarrow> user \<notin> set (participants ch) \<Longrightarrow>
     sendMessage (Some ch) user cont mt upl now =
       Inl (403, ''Not authorized to send messages in this chat'')"
  by (simp add: sendMessage_def)

text \<open>
  What a successful send stores. The last-message cache gets the content and the sender
  and no timestamp, since the object it is built from has none.
\<close>

lemma sendMessage_result:
  assumes "sendMessage (Some ch) user cont mt upl now = Inr (ch', m)"
  shows "user \<in> set (participants ch) \<and> trim cont \<noteq> []
     \<and> messages ch' = messages ch @ [m]
     \<and> senderId m = user \<and> content m = trim cont \<and> createdAt m = now
     \<and> readBy m = [\<lparr>re_userId = user, readAt = now\<rparr>]
     \<and> messageType m =
         (case upl of None \<Rightarrow> (case mt of None \<Rightarrow> ''text'' | Some t \<Rightarrow> t)
          | Some f \<Rightarrow> if startsWith (mimetype f) ''image/'' then ''image'' else ''file'')
     \<and> messageType m \<in> set message_type_enum
     \<and> fileUrl m = map_option file_path upl
     \<and> fileName m = map_option originalname upl
     \<and> lastMessage ch' =
         \<lparr>lm_content = Some (trim cont), lm_senderId = Some user, lm_createdAt = None\<rparr>
     \<and> chat_updatedAt ch' = now
     \<and> participants ch' = participants ch"
  using assms
  by (auto simp: sendMessage_def Let_def cast_message_def updateLastMessage_def chat_pre_save_def
      message_schema_ok_def split: option.splits if_splits)


lemma unreadCount_after_send:
  assumes "sendMessage (Some ch) user cont mt upl now = Inr (ch', m)"
  shows "unreadCount ch' user = unreadCount ch user"
  using sendMessage_result[OF assms]
  by (auto simp: unreadCount_def)



text \<open>
  Claim C7 at a concrete request. The send handler hands \<^verbatim>\<open>updateLastMessage\<close> the
  object literal it built, which has no \<^verbatim>\<open>createdAt\<close>: the stored message carries the
  timestamp 50 of the request, the last-message cache carries the content and the sender
  and no timestamp.
\<close>

theorem sendMessage_lastMessage_unstamped:
  "\<not> isl (sendMessage (Some ex_chat) ''u2'' ''hi'' None None 50)
   \<and> createdAt (snd (projr (sendMessage (Some ex_chat) ''u2'' ''hi'' None None 50))) = 50
   \<and> lastMessage (fst (projr (sendMessage (Some ex_chat) ''u2'' ''hi'' None None 50))) =
       \<lparr>lm_content = Some ''hi'', lm_senderId = Some ''u2'', lm_createdAt = None\<rparr>"
  by code_simp

end
